theory Spec2Isabelle
  imports Complex_Main "HOL-Library.AList" "HOL-Library.Char_ord" "HOL-Library.List_Lexorder"
begin

section \<open>Python values, exceptions and built-ins\<close>

text \<open>
  The exceptions the two engines raise or let through. \<open>InvalidOperation\<close> is the
  exception of \<open>decimal.Decimal\<close> on a malformed literal; it derives from
  \<open>ArithmeticError\<close>, not from \<open>ValueError\<close>. \<open>IntegrityError\<close>,
  \<open>ProgrammingError\<close>, \<open>CompileError\<close> and \<open>DBAPIError\<close> are those of
  \<open>sqlalchemy.exc\<close>, with their message. The four search errors are the classes of
  \<open>src/core/exceptions/search.py\<close> with their constructor arguments.
\<close>

datatype error =
    ValueError string
  | KeyError string
  | AttributeError string
  | ZeroDivisionError
  | InvalidOperation
  | IntegrityError string
  | ProgrammingError string
  | CompileError string
  | DBAPIError string
  | InvalidFilterFieldError string string
  | InvalidSortFieldError string string
  | InvalidSearchFieldError string
  | FilterValueError string string string

text \<open>
  Strings are byte strings. \<open>str.strip\<close>, \<open>str.lower\<close>, \<open>str.split(',')\<close> and
  \<open>int(str)\<close> are modelled on ASCII input. The whitespace of \<open>strip\<close> is the ASCII
  whitespace of Python strings (\<open>\t \n \v \f \r\<close>, the separators \<open>0x1C..0x1F\<close> and
  the space); \<open>lower\<close> folds \<open>A..Z\<close>.
\<close>

definition is_space :: "char \<Rightarrow> bool" where
  "is_space c = (c \<in> set [CHR 0x09, CHR 0x0A, CHR 0x0B, CHR 0x0C, CHR 0x0D,
                           CHR 0x1C, CHR 0x1D, CHR 0x1E, CHR 0x1F, CHR 0x20])"

definition py_strip :: "string \<Rightarrow> string" where
  "py_strip s = rev (dropWhile is_space (rev (dropWhile is_space s)))"

definition lower_char :: "char \<Rightarrow> char" where
  "lower_char c = (if CHR ''A'' \<le> c \<and> c \<le> CHR ''Z'' then char_of (of_char c + (32::nat)) else c)"

definition py_lower :: "string \<Rightarrow> string" where
  "py_lower s = map lower_char s"

fun split_on :: "char \<Rightarrow> string \<Rightarrow> string \<Rightarrow> string list" where
  "split_on sep acc [] = [rev acc]"
| "split_on sep acc (c # cs) =
     (if c = sep then rev acc # split_on sep [] cs else split_on sep (c # acc) cs)"

definition py_split :: "char \<Rightarrow> string \<Rightarrow> string list" where
  "py_split sep s = split_on sep [] s"

definition is_digit :: "char \<Rightarrow> bool" where
  "is_digit c = (CHR ''0'' \<le> c \<and> c \<le> CHR ''9'')"

definition digit_val :: "char \<Rightarrow> int" where
  "digit_val c = int (of_char c) - 48"

text \<open>
  \<open>int(str)\<close> drops the whitespace of C around the literal (\<open>\t \n \v \f \r\<close> and the
  space: the separators \<open>0x1C..0x1F\<close> are not part of it and make the literal
  invalid), then reads an optional sign and decimal digits with single underscores
  between digits.
\<close>

definition is_int_space :: "char \<Rightarrow> bool" where
  "is_int_space c = (c \<in> set [CHR 0x09, CHR 0x0A, CHR 0x0B, CHR 0x0C, CHR 0x0D, CHR 0x20])"

definition int_strip :: "string \<Rightarrow> string" where
  "int_strip s = rev (dropWhile is_int_space (rev (dropWhile is_int_space s)))"

text \<open>
  \<open>digits acc prev s\<close> reads the rest of a decimal literal; \<open>prev\<close> tells whether the
  character before was a digit, which an underscore and the end both require.
\<close>

fun digits :: "int \<Rightarrow> bool \<Rightarrow> string \<Rightarrow> int option" where
  "digits acc prev [] = (if prev then Some acc else None)"
| "digits acc prev (c # cs) =
     (if is_digit c then digits (10 * acc + digit_val c) True cs
      else if c = CHR ''_'' \<and> prev then digits acc False cs
      else None)"

definition py_int :: "string \<Rightarrow> int option" where
  "py_int s =
     (case int_strip s of
        [] \<Rightarrow> None
      | c # cs \<Rightarrow>
          if c = CHR ''-'' then map_option uminus (digits 0 False cs)
          else if c = CHR ''+'' then digits 0 False cs
          else digits 0 False (c # cs))"

text \<open>
  \<open>float(str)\<close> and \<open>Decimal(str)\<close> are parameters of the model: binary and decimal
  floating point values are not represented, only whether the literal is accepted
  (\<open>None\<close> when the constructor raises) and an abstract value when it is.
\<close>

record ('f, 'd) builtins =
  py_float :: "string \<Rightarrow> 'f option"
  py_Decimal :: "string \<Rightarrow> 'd option"

section \<open>Search schemas (\<open>src/core/schemas/search.py\<close>)\<close>

datatype FilterOperator =
    CONTAINS | DOES_NOT_CONTAIN | EQUALS | NOT_EQUALS | STARTS_WITH | ENDS_WITH
  | IS_EMPTY | IS_NOT_EMPTY | GREATER_THAN | LESS_THAN | GREATER_OR_EQUAL | LESS_OR_EQUAL
  | IN | NOT_IN

datatype SortDirection = ASC | DESC

record BaseFilterItem =
  f_column :: string
  f_value :: string
  f_operator :: FilterOperator

record BaseSortItem =
  s_column :: string
  s_direction :: SortDirection

record BaseSearchRequestBody =
  rq_search :: "string option"
  rq_page :: "int option"
  rq_page_size :: "int option"
  rq_filter :: "BaseFilterItem list option"
  rq_sort :: "BaseSortItem list option"

text \<open>
  The field constraints of \<open>BaseSearchRequestBody\<close>: \<open>page\<close> is \<open>ge=1\<close>,
  \<open>page_size\<close> is \<open>ge=1, le=100\<close>; both are optional.
\<close>

definition valid_request :: "BaseSearchRequestBody \<Rightarrow> bool" where
  "valid_request rq =
     ((case rq_page rq of None \<Rightarrow> True | Some p \<Rightarrow> 1 \<le> p) \<and>
      (case rq_page_size rq of None \<Rightarrow> True | Some n \<Rightarrow> 1 \<le> n \<and> n \<le> 100))"

record 'a SearchResponse =
  items :: "'a list"
  total :: int
  page :: int
  page_size :: int
  total_pages :: int

text \<open>
  \<open>SearchResponse.create\<close>. Python's \<open>//\<close> on integers is floor division, which is
  \<open>div\<close> on \<open>int\<close>; it raises \<open>ZeroDivisionError\<close> on a zero divisor, and the division
  is only evaluated when \<open>total > 0\<close>.
\<close>

definition create :: "'a list \<Rightarrow> int \<Rightarrow> int \<Rightarrow> int \<Rightarrow> error + 'a SearchResponse" where
  "create its tot pg ps =
     (if tot > 0 then
        (if ps = 0 then Inl ZeroDivisionError
         else Inr \<lparr>items = its, total = tot, page = pg, page_size = ps,
                   total_pages = (tot + ps - 1) div ps\<rparr>)
      else Inr \<lparr>items = its, total = tot, page = pg, page_size = ps, total_pages = 0\<rparr>)"

section \<open>Search service (\<open>src/core/services/search_service.py\<close>)\<close>

text \<open>
  A column is known by its name and, when its type has one, the \<open>python_type\<close> of its
  type; \<open>type_name\<close> is \<open>python_type.__name__\<close>.
\<close>

datatype python_type = IntT | FloatT | DecimalT | BoolT | OtherT string

fun type_name :: "python_type \<Rightarrow> string" where
  "type_name IntT = ''int''"
| "type_name FloatT = ''float''"
| "type_name DecimalT = ''Decimal''"
| "type_name BoolT = ''bool''"
| "type_name (OtherT n) = n"

record column =
  col_name :: string
  col_python_type :: "python_type option"

text \<open>
  An entry of \<open>join_columns\<close> is a dictionary read with \<open>.get('join')\<close> and
  \<open>.get('column')\<close>; either key may be missing.
\<close>

record join_config =
  jc_join :: "string option"
  jc_column :: "column option"

record SearchConfig =
  simple_columns :: "string list"
  join_columns :: "(string \<times> join_config) list"
  searchable_columns :: "string list"
  sortable_columns :: "string list"

text \<open>
  \<open>SearchConfig.__init__\<close>: \<open>x or d\<close> takes the default when the argument is \<open>None\<close>
  and also when it is empty.
\<close>

definition SearchConfig_init ::
  "string list \<Rightarrow> (string \<times> join_config) list option \<Rightarrow> string list option \<Rightarrow>
   string list option \<Rightarrow> SearchConfig" where
  "SearchConfig_init simple joins searchable sortable =
     \<lparr>simple_columns = simple,
      join_columns = (case joins of None \<Rightarrow> [] | Some j \<Rightarrow> j),
      searchable_columns = (case searchable of None \<Rightarrow> [] | Some s \<Rightarrow> s),
      sortable_columns =
        (case sortable of None \<Rightarrow> simple | Some s \<Rightarrow> if s = [] then simple else s)\<rparr>"

text \<open>
  The mapped class: its \<open>__name__\<close>, the column attributes \<open>getattr\<close> finds on it,
  and the names of its relationship attributes.
\<close>

record orm_model =
  model_name :: string
  model_attrs :: "(string \<times> column) list"
  model_relationships :: "string list"

definition hasattr :: "orm_model \<Rightarrow> string \<Rightarrow> bool" where
  "hasattr m a = (a \<in> fst ` set (model_attrs m) \<or> a \<in> set (model_relationships m))"

definition getattr :: "orm_model \<Rightarrow> string \<Rightarrow> error + column" where
  "getattr m a = (case map_of (model_attrs m) a of
                    None \<Rightarrow> Inl (AttributeError a)
                  | Some c \<Rightarrow> Inr c)"

definition in_join_columns :: "SearchConfig \<Rightarrow> string \<Rightarrow> bool" where
  "in_join_columns cfg c = (c \<in> fst ` set (join_columns cfg))"

datatype ('f, 'd) pyvalue = IntV int | FloatV 'f | DecimalV 'd | BoolV bool | StrV string

text \<open>
  A filter condition keeps the operator, the column and the converted operands (none
  for the emptiness tests, one per item for the membership tests).
\<close>

datatype ('f, 'd) condition = Condition FilterOperator column "('f, 'd) pyvalue list"

datatype ('f, 'd) where_clause =
    WorkspaceIs int
  | AnyContains "column list" string
  | AllOf "('f, 'd) condition list"

record ('f, 'd) query =
  q_options :: "string list"
  q_where :: "('f, 'd) where_clause list"
  q_joins :: "string list"
  q_order_by :: "(column \<times> SortDirection) list"
  q_offset :: "int option"
  q_limit :: "int option"

definition convert_filter_value ::
  "('f, 'd) builtins \<Rightarrow> column \<Rightarrow> string \<Rightarrow> string \<Rightarrow> error + ('f, 'd) pyvalue" where
  "convert_filter_value b col v cname =
     (case col_python_type col of
        None \<Rightarrow> Inr (StrV (py_strip v))
      | Some t \<Rightarrow>
          (case t of
             IntT \<Rightarrow> (case py_int v of
                        None \<Rightarrow> Inl (FilterValueError cname v (type_name t))
                      | Some i \<Rightarrow> Inr (IntV i))
           | FloatT \<Rightarrow> (case py_float b v of
                          None \<Rightarrow> Inl (FilterValueError cname v (type_name t))
                        | Some x \<Rightarrow> Inr (FloatV x))
           | DecimalT \<Rightarrow> (case py_Decimal b v of
                            None \<Rightarrow> Inl InvalidOperation
                          | Some x \<Rightarrow> Inr (DecimalV x))
           | BoolT \<Rightarrow> Inr (BoolV (py_lower v \<in> set [''true'', ''1'', ''yes'', ''on'']))
           | OtherT n \<Rightarrow> Inr (StrV (py_strip v))))"

text \<open>The list comprehension of the membership operators: the first failure raises.\<close>

fun convert_all ::
  "('f, 'd) builtins \<Rightarrow> column \<Rightarrow> string \<Rightarrow> string list \<Rightarrow> error + ('f, 'd) pyvalue list" where
  "convert_all b col cname [] = Inr []"
| "convert_all b col cname (v # vs) =
     (case convert_filter_value b col v cname of
        Inl e \<Rightarrow> Inl e
      | Inr x \<Rightarrow> (case convert_all b col cname vs of
                    Inl e \<Rightarrow> Inl e
                  | Inr xs \<Rightarrow> Inr (x # xs)))"

text \<open>
  \<open>_build_filter_condition\<close>. The whole value is converted before the operator is
  looked at, for every operator.
\<close>

definition build_filter_condition ::
  "('f, 'd) builtins \<Rightarrow> orm_model \<Rightarrow> SearchConfig \<Rightarrow> BaseFilterItem \<Rightarrow>
   error + ('f, 'd) condition option" where
  "build_filter_condition b m cfg fi =
     (let column_name = f_column fi; v = f_value fi; operator = f_operator fi in
      if column_name \<notin> set (simple_columns cfg) \<and> \<not> in_join_columns cfg column_name
      then Inl (InvalidFilterFieldError column_name (model_name m))
      else
        (case (if column_name \<in> set (simple_columns cfg)
               then map_sum id Some (getattr m column_name)
               else Inr (case map_of (join_columns cfg) column_name of
                           None \<Rightarrow> None
                         | Some jc \<Rightarrow> jc_column jc)) of
           Inl e \<Rightarrow> Inl e
         | Inr None \<Rightarrow> Inl (InvalidFilterFieldError column_name (model_name m))
         | Inr (Some col) \<Rightarrow>
             (case convert_filter_value b col v column_name of
                Inl e \<Rightarrow> Inl e
              | Inr converted \<Rightarrow>
                  if operator = IS_EMPTY \<or> operator = IS_NOT_EMPTY
                  then Inr (Some (Condition operator col []))
                  else if operator = IN \<or> operator = NOT_IN
                  then (case convert_all b col column_name (map py_strip (py_split CHR '','' v)) of
                          Inl e \<Rightarrow> Inl e
                        | Inr converted_values \<Rightarrow> Inr (Some (Condition operator col converted_values)))
                  else Inr (Some (Condition operator col [converted])))))"

text \<open>
  \<open>_apply_filters\<close>: every exception of \<open>_build_filter_condition\<close> is caught and
  replaced by \<open>FilterValueError(column, value, "valid filter value")\<close>.
\<close>

fun filter_conditions ::
  "('f, 'd) builtins \<Rightarrow> orm_model \<Rightarrow> SearchConfig \<Rightarrow> BaseFilterItem list \<Rightarrow>
   error + ('f, 'd) condition list" where
  "filter_conditions b m cfg [] = Inr []"
| "filter_conditions b m cfg (fi # fis) =
     (case build_filter_condition b m cfg fi of
        Inl e \<Rightarrow> Inl (FilterValueError (f_column fi) (f_value fi) ''valid filter value'')
      | Inr c \<Rightarrow>
          (case filter_conditions b m cfg fis of
             Inl e \<Rightarrow> Inl e
           | Inr cs \<Rightarrow> Inr ((case c of None \<Rightarrow> [] | Some x \<Rightarrow> [x]) @ cs)))"

definition apply_filters ::
  "('f, 'd) builtins \<Rightarrow> orm_model \<Rightarrow> SearchConfig \<Rightarrow> ('f, 'd) query \<Rightarrow> BaseFilterItem list \<Rightarrow>
   error + ('f, 'd) query" where
  "apply_filters b m cfg q filters =
     (case filter_conditions b m cfg filters of
        Inl e \<Rightarrow> Inl e
      | Inr conds \<Rightarrow>
          Inr (if conds = [] then q else q\<lparr>q_where := q_where q @ [AllOf conds]\<rparr>))"

text \<open>\<open>_add_joins_for_filters\<close>: a join target is attached at most once.\<close>

fun add_joins_for_filters ::
  "SearchConfig \<Rightarrow> BaseFilterItem list \<Rightarrow> ('f, 'd) query \<times> string set \<Rightarrow>
   ('f, 'd) query \<times> string set" where
  "add_joins_for_filters cfg [] acc = acc"
| "add_joins_for_filters cfg (fi # fis) (q, joined_tables) =
     (case map_of (join_columns cfg) (f_column fi) of
        None \<Rightarrow> add_joins_for_filters cfg fis (q, joined_tables)
      | Some jc \<Rightarrow>
          (case jc_join jc of
             None \<Rightarrow> add_joins_for_filters cfg fis (q, joined_tables)
           | Some join_target \<Rightarrow>
               if join_target \<in> joined_tables
               then add_joins_for_filters cfg fis (q, joined_tables)
               else add_joins_for_filters cfg fis
                      (q\<lparr>q_joins := q_joins q @ [join_target]\<rparr>, insert join_target joined_tables)))"

text \<open>\<open>_apply_search\<close>: the columns of the disjunction, in configuration order.\<close>

fun search_columns :: "orm_model \<Rightarrow> SearchConfig \<Rightarrow> string list \<Rightarrow> error + column list" where
  "search_columns m cfg [] = Inr []"
| "search_columns m cfg (c # cs) =
     (case (if c \<in> set (simple_columns cfg) then map_sum id Some (getattr m c)
            else Inr (case map_of (join_columns cfg) c of
                        None \<Rightarrow> None
                      | Some jc \<Rightarrow> jc_column jc)) of
        Inl e \<Rightarrow> Inl e
      | Inr found \<Rightarrow>
          (case search_columns m cfg cs of
             Inl e \<Rightarrow> Inl e
           | Inr rest \<Rightarrow> Inr ((case found of None \<Rightarrow> [] | Some col \<Rightarrow> [col]) @ rest)))"

definition apply_search ::
  "orm_model \<Rightarrow> SearchConfig \<Rightarrow> ('f, 'd) query \<Rightarrow> string \<Rightarrow> error + ('f, 'd) query" where
  "apply_search m cfg q search_term =
     (if searchable_columns cfg = [] then Inl (InvalidSearchFieldError (model_name m))
      else case search_columns m cfg (searchable_columns cfg) of
             Inl e \<Rightarrow> Inl e
           | Inr cols \<Rightarrow>
               Inr (if cols = [] then q
                    else q\<lparr>q_where := q_where q @ [AnyContains cols (py_lower (py_strip search_term))]\<rparr>))"

text \<open>
  \<open>_apply_sorting\<close>. The guard lets a name through when it is in \<open>sortable_columns\<close>
  or a key of \<open>join_columns\<close>; the column is then looked up in \<open>simple_columns\<close>
  first and \<open>join_columns\<close> second. A join entry without a \<open>column\<close> gives \<open>None\<close>, and
  \<open>None.asc()\<close> raises \<open>AttributeError\<close>.
\<close>

fun apply_sorting ::
  "orm_model \<Rightarrow> SearchConfig \<Rightarrow> ('f, 'd) query \<Rightarrow> BaseSortItem list \<Rightarrow> string set \<Rightarrow>
   error + ('f, 'd) query" where
  "apply_sorting m cfg q [] joined_tables = Inr q"
| "apply_sorting m cfg q (si # sis) joined_tables =
     (let column_name = s_column si in
      if column_name \<notin> set (sortable_columns cfg) \<and> \<not> in_join_columns cfg column_name
      then Inl (InvalidSortFieldError column_name (model_name m))
      else if column_name \<in> set (simple_columns cfg)
      then (case getattr m column_name of
              Inl e \<Rightarrow> Inl e
            | Inr col \<Rightarrow>
                apply_sorting m cfg (q\<lparr>q_order_by := q_order_by q @ [(col, s_direction si)]\<rparr>)
                  sis joined_tables)
      else (case map_of (join_columns cfg) column_name of
              None \<Rightarrow> Inl (InvalidSortFieldError column_name (model_name m))
            | Some jc \<Rightarrow>
                (let (q', joined') =
                       (case jc_join jc of
                          None \<Rightarrow> (q, joined_tables)
                        | Some join_target \<Rightarrow>
                            if join_target \<in> joined_tables then (q, joined_tables)
                            else (q\<lparr>q_joins := q_joins q @ [join_target]\<rparr>,
                                  insert join_target joined_tables))
                 in case jc_column jc of
                      None \<Rightarrow> Inl (AttributeError (if s_direction si = DESC then ''desc'' else ''asc''))
                    | Some col \<Rightarrow>
                        apply_sorting m cfg (q'\<lparr>q_order_by := q_order_by q' @ [(col, s_direction si)]\<rparr>)
                          sis joined')))"

text \<open>
  The store behind \<open>search\<close>: the count of a query (\<open>scalar()\<close>, possibly \<open>None\<close>) and
  the page of a query already mapped to response items (lines 120 to 147, where
  validation of an item may raise).
\<close>

record ('f, 'd, 'a) backend =
  run_count :: "('f, 'd) query \<Rightarrow> int option"
  run_page :: "('f, 'd) query \<Rightarrow> error + 'a list"

definition select :: "('f, 'd) query" where
  "select = \<lparr>q_options = [], q_where = [], q_joins = [], q_order_by = [],
             q_offset = None, q_limit = None\<rparr>"

text \<open>
  Lines 76 to 97 of \<open>search\<close>: the query with the tenant predicate, the joins of the
  filters, the free-text predicate and the filters, and the join targets attached so far.
\<close>

definition filtered_query ::
  "('f, 'd) builtins \<Rightarrow> orm_model \<Rightarrow> SearchConfig \<Rightarrow> BaseSearchRequestBody \<Rightarrow> int option \<Rightarrow>
   error + ('f, 'd) query \<times> string set" where
  "filtered_query b m cfg rq workspace_id =
     (if model_name m = ''Product'' \<and> \<not> hasattr m ''catalog_stocks''
      then Inl (AttributeError ''catalog_stocks'')
      else
        let q1 = (if model_name m = ''Product'' then select\<lparr>q_options := [''catalog_stocks'']\<rparr>
                  else select);
            q2 = (case workspace_id of
                    None \<Rightarrow> q1
                  | Some w \<Rightarrow> if hasattr m ''workspace_id''
                              then q1\<lparr>q_where := q_where q1 @ [WorkspaceIs w]\<rparr> else q1);
            filters = (case rq_filter rq of None \<Rightarrow> [] | Some fs \<Rightarrow> fs);
            (q3, joined_tables) = add_joins_for_filters cfg filters (q2, {})
        in case (case rq_search rq of
                   None \<Rightarrow> Inr q3
                 | Some s \<Rightarrow> if s = [] then Inr q3 else apply_search m cfg q3 s) of
             Inl e \<Rightarrow> Inl e
           | Inr q4 \<Rightarrow>
               (case (if filters = [] then Inr q4 else apply_filters b m cfg q4 filters) of
                  Inl e \<Rightarrow> Inl e
                | Inr q5 \<Rightarrow> Inr (q5, joined_tables)))"

text \<open>Lines 99 to 104: the sort clauses, or ascending \<open>id\<close> when there is none.\<close>

definition build_query ::
  "('f, 'd) builtins \<Rightarrow> orm_model \<Rightarrow> SearchConfig \<Rightarrow> BaseSearchRequestBody \<Rightarrow> int option \<Rightarrow>
   error + ('f, 'd) query" where
  "build_query b m cfg rq workspace_id =
     (case filtered_query b m cfg rq workspace_id of
        Inl e \<Rightarrow> Inl e
      | Inr (q, joined_tables) \<Rightarrow>
          (case (case rq_sort rq of None \<Rightarrow> [] | Some sorts \<Rightarrow> sorts) of
             [] \<Rightarrow> map_sum id (\<lambda>c. q\<lparr>q_order_by := q_order_by q @ [(c, ASC)]\<rparr>) (getattr m ''id'')
           | si # sis \<Rightarrow> apply_sorting m cfg q (si # sis) joined_tables))"

text \<open>
  \<open>search\<close>: \<open>x or d\<close> replaces \<open>None\<close> and \<open>0\<close> by the default. The handler of the
  \<open>try\<close> logs and re-raises, so an error leaves \<open>search\<close> as it was raised.
\<close>

definition or_default :: "int option \<Rightarrow> int \<Rightarrow> int" where
  "or_default x d = (case x of None \<Rightarrow> d | Some v \<Rightarrow> if v = 0 then d else v)"

definition search ::
  "('f, 'd) builtins \<Rightarrow> orm_model \<Rightarrow> SearchConfig \<Rightarrow> ('f, 'd, 'a) backend \<Rightarrow>
   BaseSearchRequestBody \<Rightarrow> int option \<Rightarrow> error + 'a SearchResponse" where
  "search b m cfg db rq workspace_id =
     (case build_query b m cfg rq workspace_id of
        Inl e \<Rightarrow> Inl e
      | Inr q \<Rightarrow>
          (let tot = or_default (run_count db q) 0;
               pg = or_default (rq_page rq) 1;
               ps = or_default (rq_page_size rq) 20;
               offset = (pg - 1) * ps
           in case run_page db (q\<lparr>q_offset := Some offset, q_limit := Some ps\<rparr>) of
                Inl e \<Rightarrow> Inl e
              | Inr response_items \<Rightarrow> create response_items tot pg ps))"

section \<open>Bulk update (\<open>src/core/mixins.py\<close>)\<close>

subsection \<open>Values and dictionaries\<close>

text \<open>
  The values of a dumped schema (\<open>Any\<close>), as far as the engine looks at them: it
  compares them with \<open>None\<close>, tests the \<open>__empty\<close> marker for truth and copies them.
  A dictionary is an association list in insertion order; assigning to a key that
  is present keeps its position (\<open>AList.update\<close>).
\<close>

datatype pyval = PyNone | PyBool bool | PyInt int | PyStr string

type_synonym pydict = "(string \<times> pyval) list"

fun truthy :: "pyval \<Rightarrow> bool" where
  "truthy PyNone = False"
| "truthy (PyBool b) = b"
| "truthy (PyInt i) = (i \<noteq> 0)"
| "truthy (PyStr s) = (s \<noteq> [])"

definition dict_get :: "pydict \<Rightarrow> string \<Rightarrow> pyval" where
  "dict_get d k = (case map_of d k of None \<Rightarrow> PyNone | Some v \<Rightarrow> v)"

definition has_key :: "pydict \<Rightarrow> string \<Rightarrow> bool" where
  "has_key d k = (k \<in> fst ` set d)"

definition dict_update :: "pydict \<Rightarrow> pydict \<Rightarrow> pydict" where
  "dict_update d e = fold (\<lambda>(k, v). AList.update k v) e d"

definition dict_of :: "(string \<times> pyval) list \<Rightarrow> pydict" where
  "dict_of kvs = dict_update [] kvs"

record BulkUpdateResult =
  updated :: "pydict list"
  errors :: "pydict list"

definition error_entry :: "pyval \<Rightarrow> string \<Rightarrow> pydict" where
  "error_entry i msg = [(''id'', i), (''error'', PyStr msg)]"

subsection \<open>The table and the session\<close>

text \<open>
  The repository (\<open>self\<close>): its \<open>workspace_id\<close>, the column names of
  \<open>self.model.__table__\<close>, and the database behind \<open>self.db_session\<close>. The database
  is a parameter: \<open>store repo t st\<close> is the outcome of a well-formed statement \<open>st\<close>
  on the content \<open>t\<close>, either the exception raised (\<open>IntegrityError\<close> for a
  constraint, \<open>DBAPIError\<close> for a value the driver refuses, such as an id outside
  the range of the column, or any other), or the rows returned with the content
  after the statement.

  A session holds the committed content, the content the open transaction sees, and
  the trace of what was handed to it.

  \<open>BatchUpdate cols vals ws\<close> is the text statement of \<open>_execute_batch_update\<close> on
  the columns \<open>cols\<close>: one row of values per row of the batch, the id and then the
  values of \<open>cols\<close>, and the tenant \<open>ws\<close> when the statement has the tenant filter.
  \<open>RowUpdate i asg ws\<close> is the \<open>sa.update\<close> of \<open>_fallback_row_by_row\<close> for the id
  \<open>i\<close> with the assignments \<open>asg\<close>, executed with the parameter
  \<open>workspace_id\<close>; \<open>ws\<close> is that parameter when the statement has the tenant filter.
\<close>

type_synonym dbrow = "string \<Rightarrow> pyval option"
type_synonym dbtable = "pyval \<Rightarrow> dbrow option"

datatype statement =
    BatchUpdate "string list" "(pyval \<times> pyval list) list" "int option"
  | RowUpdate pyval "(string \<times> pyval) list" "int option"

datatype event = Execute statement | Commit | Rollback

record repository =
  workspace_id :: int
  table_columns :: "string list"
  store :: "dbtable \<Rightarrow> statement \<Rightarrow> error + pydict list \<times> dbtable"

record session =
  committed :: dbtable
  pending :: dbtable
  log :: "event list"

text \<open>
  \<open>db_session.execute\<close>.

  The batch statement is an \<open>sa.text\<close> that writes every value as a name with a
  cast, \<open>:id_0::BIGINT\<close>, \<open>:name_0::VARCHAR\<close> and so on. \<open>sa.text\<close> takes no bind
  parameter from a name that a colon follows, so the statement is sent with these
  names in it and PostgreSQL rejects it: \<open>ProgrammingError\<close>.

  The row statement is executed with the parameters
  \<open>{"workspace_id": self.workspace_id}\<close>. When the statement has the tenant filter
  the table has a column of that name, the parameter is taken as a value to set,
  and its name is the one \<open>bindparam("workspace_id")\<close> has in the filter:
  \<open>CompileError\<close>, and nothing is sent. Without the filter the table has no such
  column, and the outcome of the statement is the one the store gives.

  A statement that raises changes no content.
\<close>

definition execute ::
  "repository \<Rightarrow> session \<Rightarrow> statement \<Rightarrow> (error + pydict list) \<times> session" where
  "execute repo s st =
     (case st of
        BatchUpdate cols vals ws \<Rightarrow>
          (Inl (ProgrammingError ''syntax error at or near :''), s\<lparr>log := log s @ [Execute st]\<rparr>)
      | RowUpdate i asg ws \<Rightarrow>
          (case ws of
             Some w \<Rightarrow>
               (Inl (CompileError ''bindparam() name 'workspace_id' is reserved''),
                s\<lparr>log := log s @ [Execute st]\<rparr>)
           | None \<Rightarrow>
               (case store repo (pending s) st of
                  Inl e \<Rightarrow> (Inl e, s\<lparr>log := log s @ [Execute st]\<rparr>)
                | Inr (rows, t') \<Rightarrow> (Inr rows, s\<lparr>pending := t', log := log s @ [Execute st]\<rparr>))))"

definition commit :: "session \<Rightarrow> session" where
  "commit s = s\<lparr>committed := pending s, log := log s @ [Commit]\<rparr>"

definition rollback :: "session \<Rightarrow> session" where
  "rollback s = s\<lparr>pending := committed s, log := log s @ [Rollback]\<rparr>"

subsection \<open>Normalising and grouping\<close>

text \<open>
  Step 1 of \<open>bulk_update\<close> for one item; \<open>raw\<close> is its \<open>model_dump\<close>. A value is kept
  when it is not \<open>None\<close> or \<open>include_none\<close> is set.
\<close>

definition kept :: "bool \<Rightarrow> pyval \<Rightarrow> bool" where
  "kept include_none v = (if v = PyNone then include_none else True)"

definition candidate_fields :: "string list option \<Rightarrow> bool \<Rightarrow> pydict \<Rightarrow> pydict" where
  "candidate_fields update_fields include_none raw =
     (case update_fields of
        None \<Rightarrow> dict_of (filter (\<lambda>(k, v). k \<noteq> ''id'' \<and> kept include_none v) raw)
      | Some names \<Rightarrow>
          dict_of (map (\<lambda>k. (k, dict_get raw k))
                     (filter (\<lambda>k. kept include_none (dict_get raw k)) names)))"

definition normalise_item :: "string list option \<Rightarrow> bool \<Rightarrow> pydict \<Rightarrow> error + pydict" where
  "normalise_item update_fields include_none raw =
     (case map_of raw ''id'' of
        None \<Rightarrow> Inl (ValueError ''Every update schema must include an 'id' field'')
      | Some i \<Rightarrow>
          (let row = [(''id'', i)];
               cand = candidate_fields update_fields include_none raw
           in if cand = [] then Inr (dict_update row [(''__empty'', PyBool True)])
              else Inr (dict_update row cand)))"

fun normalise :: "string list option \<Rightarrow> bool \<Rightarrow> pydict list \<Rightarrow> error + pydict list" where
  "normalise update_fields include_none [] = Inr []"
| "normalise update_fields include_none (raw # payload) =
     (case normalise_item update_fields include_none raw of
        Inl e \<Rightarrow> Inl e
      | Inr row \<Rightarrow>
          (case normalise update_fields include_none payload of
             Inl e \<Rightarrow> Inl e
           | Inr rows \<Rightarrow> Inr (row # rows)))"

text \<open>
  Step 2: \<open>groups\<close> is a \<open>defaultdict(list)\<close> keyed by the frozen set of the columns
  a row writes, in order of first appearance.
\<close>

definition row_columns :: "pydict \<Rightarrow> string set" where
  "row_columns row = set (filter (\<lambda>k. k \<noteq> ''id'' \<and> k \<noteq> ''__empty'') (map fst row))"

fun group_rows ::
  "pydict list \<Rightarrow> (string set \<times> pydict list) list \<Rightarrow> (string set \<times> pydict list) list" where
  "group_rows [] groups = groups"
| "group_rows (row # rows) groups =
     (if row_columns row = {} then group_rows rows groups
      else group_rows rows (map_default (row_columns row) [row] (\<lambda>rs. rs @ [row]) groups))"

subsection \<open>Chunks\<close>

definition MAX_QUERY_PARAMS :: nat where
  "MAX_QUERY_PARAMS = 20000"

text \<open>\<open>_MAX_QUERY_PARAMS // num_columns or 1\<close>.\<close>

definition max_rows :: "nat \<Rightarrow> nat" where
  "max_rows num_columns =
     (if MAX_QUERY_PARAMS div num_columns = 0 then 1 else MAX_QUERY_PARAMS div num_columns)"

text \<open>\<open>itertools.batched\<close>, which raises \<open>ValueError\<close> when \<open>n\<close> is below one.\<close>

function chunks :: "'a list \<Rightarrow> nat \<Rightarrow> 'a list list" where
  "chunks xs n = (if xs = [] \<or> n = 0 then [] else take n xs # chunks (drop n xs) n)"
  by pat_completeness auto
termination
  by (relation "measure (\<lambda>(xs, n). length xs)") auto

definition batched :: "'a list \<Rightarrow> nat \<Rightarrow> error + 'a list list" where
  "batched xs n = (if n = 0 then Inl (ValueError ''n must be at least one'') else Inr (chunks xs n))"

subsection \<open>Statements\<close>

text \<open>
  The parameters of \<open>_execute_batch_update\<close>, row by row: \<open>row["id"]\<close>, then the type
  of \<open>id\<close> and of every column in \<open>table.c\<close>, each of which raises \<open>KeyError\<close> when
  the name is missing.
\<close>

fun values_rows ::
  "string list \<Rightarrow> string list \<Rightarrow> pydict list \<Rightarrow> error + (pyval \<times> pyval list) list" where
  "values_rows tcols cols [] = Inr []"
| "values_rows tcols cols (row # batch) =
     (case map_of row ''id'' of
        None \<Rightarrow> Inl (KeyError ''id'')
      | Some i \<Rightarrow>
          if ''id'' \<notin> set tcols then Inl (KeyError ''id'')
          else (case find (\<lambda>c. c \<notin> set tcols) cols of
                  Some c \<Rightarrow> Inl (KeyError c)
                | None \<Rightarrow>
                    (case values_rows tcols cols batch of
                       Inl e \<Rightarrow> Inl e
                     | Inr vals \<Rightarrow> Inr ((i, map (dict_get row) cols) # vals))))"

definition workspace_bind :: "repository \<Rightarrow> bool \<Rightarrow> int option" where
  "workspace_bind repo workspace_filter = (if workspace_filter then Some (workspace_id repo) else None)"

text \<open>
  \<open>_execute_batch_update\<close>. An exception of \<open>execute\<close> leaves the function.
  \<open>missing_ids\<close> is a set in the source; the model lists it without repetition.
\<close>

definition execute_batch_update ::
  "repository \<Rightarrow> session \<Rightarrow> pydict list \<Rightarrow> string list \<Rightarrow> bool \<Rightarrow>
   (error + pydict list \<times> pyval list) \<times> session" where
  "execute_batch_update repo s batch cols workspace_filter =
     (case values_rows (table_columns repo) cols batch of
        Inl e \<Rightarrow> (Inl e, s)
      | Inr vals \<Rightarrow>
          (case execute repo s (BatchUpdate cols vals (workspace_bind repo workspace_filter)) of
             (Inl e, s') \<Rightarrow> (Inl e, s')
           | (Inr rows, s') \<Rightarrow>
               (let updated_ids = map (\<lambda>r. dict_get r ''id'') rows;
                    sent_ids = map fst vals;
                    missing_ids = remdups (filter (\<lambda>i. i \<notin> set updated_ids) sent_ids)
                in (Inr (rows, missing_ids), s'))))"

text \<open>
  The statement of \<open>_fallback_row_by_row\<close> for one row: \<open>table.c.id\<close>, \<open>row["id"]\<close>
  and \<open>table.c[c]\<close> raise when the name is missing.
\<close>

definition row_statement ::
  "repository \<Rightarrow> pydict \<Rightarrow> string list \<Rightarrow> bool \<Rightarrow> error + statement" where
  "row_statement repo row cols workspace_filter =
     (if ''id'' \<notin> set (table_columns repo) then Inl (AttributeError ''id'')
      else case map_of row ''id'' of
             None \<Rightarrow> Inl (KeyError ''id'')
           | Some i \<Rightarrow>
               (case find (\<lambda>c. c \<notin> set (table_columns repo)) cols of
                  Some c \<Rightarrow> Inl (KeyError c)
                | None \<Rightarrow>
                    Inr (RowUpdate i (map (\<lambda>c. (c, dict_get row c)) cols)
                           (workspace_bind repo workspace_filter))))"

text \<open>
  \<open>_fallback_row_by_row\<close>: the handler of a row catches \<open>IntegrityError\<close> only; any
  other exception of \<open>execute\<close> leaves the function at that row.
\<close>

fun fallback_row_by_row ::
  "repository \<Rightarrow> session \<Rightarrow> pydict list \<Rightarrow> string list \<Rightarrow> bool \<Rightarrow>
   pydict list \<times> pydict list \<Rightarrow> (error + pydict list \<times> pydict list) \<times> session" where
  "fallback_row_by_row repo s [] cols workspace_filter (upd, errs) = (Inr (upd, errs), s)"
| "fallback_row_by_row repo s (row # rows) cols workspace_filter (upd, errs) =
     (case row_statement repo row cols workspace_filter of
        Inl e \<Rightarrow> (Inl e, s)
      | Inr stmt \<Rightarrow>
          (case execute repo s stmt of
             (Inr [], s') \<Rightarrow>
               fallback_row_by_row repo s' rows cols workspace_filter
                 (upd, errs @ [error_entry (dict_get row ''id'') ''row not found or workspace mismatch''])
           | (Inr (out # _), s') \<Rightarrow>
               fallback_row_by_row repo (commit s') rows cols workspace_filter (upd @ [out], errs)
           | (Inl (IntegrityError msg), s') \<Rightarrow>
               fallback_row_by_row repo (rollback s') rows cols workspace_filter
                 (upd, errs @ [error_entry (dict_get row ''id'') msg])
           | (Inl e, s') \<Rightarrow> (Inl e, s')))"

subsection \<open>The loop over groups and chunks\<close>

text \<open>The body of the loop over the chunks of a group (lines 155 to 187).\<close>

definition process_batch ::
  "repository \<Rightarrow> bool \<Rightarrow> string list \<Rightarrow> pydict list \<times> pydict list \<times> session \<Rightarrow> pydict list \<Rightarrow>
   (error + pydict list \<times> pydict list) \<times> session" where
  "process_batch repo workspace_filter cols acc batch =
     (case acc of (upd, errs, s) \<Rightarrow>
        if batch = [] then (Inr (upd, errs), s)
        else
          (case execute_batch_update repo s batch cols workspace_filter of
             (Inl (IntegrityError msg), s') \<Rightarrow>
               (case fallback_row_by_row repo (rollback s') batch cols workspace_filter ([], []) of
                  (Inl e, s'') \<Rightarrow> (Inl e, s'')
                | (Inr (row_results, row_errors), s'') \<Rightarrow>
                    (Inr (upd @ row_results, errs @ row_errors), s''))
           | (Inl e, s') \<Rightarrow> (Inl e, s')
           | (Inr (batch_result, missing_ids), s') \<Rightarrow>
               (Inr (upd @ batch_result,
                     errs @ map (\<lambda>i. error_entry i ''row not found or workspace mismatch'') missing_ids),
                commit s')))"

fun process_batches ::
  "repository \<Rightarrow> bool \<Rightarrow> string list \<Rightarrow> pydict list \<times> pydict list \<times> session \<Rightarrow> pydict list list \<Rightarrow>
   (error + pydict list \<times> pydict list) \<times> session" where
  "process_batches repo workspace_filter cols (upd, errs, s) [] = (Inr (upd, errs), s)"
| "process_batches repo workspace_filter cols (upd, errs, s) (batch # rest) =
     (case process_batch repo workspace_filter cols (upd, errs, s) batch of
        (Inl e, s') \<Rightarrow> (Inl e, s')
      | (Inr (upd', errs'), s') \<Rightarrow>
          process_batches repo workspace_filter cols (upd', errs', s') rest)"

text \<open>The loop over the groups (lines 149 to 187).\<close>

fun process_groups ::
  "repository \<Rightarrow> bool \<Rightarrow> pydict list \<times> pydict list \<times> session \<Rightarrow>
   (string set \<times> pydict list) list \<Rightarrow> (error + pydict list \<times> pydict list) \<times> session" where
  "process_groups repo workspace_filter (upd, errs, s) [] = (Inr (upd, errs), s)"
| "process_groups repo workspace_filter (upd, errs, s) ((cols_set, rows) # groups) =
     (let cols = sorted_list_of_set cols_set;
          num_columns = 1 + length cols
      in case batched rows (max_rows num_columns) of
           Inl e \<Rightarrow> (Inl e, s)
         | Inr batches \<Rightarrow>
             (case process_batches repo workspace_filter cols (upd, errs, s) batches of
                (Inl e, s') \<Rightarrow> (Inl e, s')
              | (Inr (upd', errs'), s') \<Rightarrow>
                  process_groups repo workspace_filter (upd', errs', s') groups))"

text \<open>The rows marked empty in step 1 (lines 189 to 191).\<close>

definition empty_errors :: "pydict list \<Rightarrow> pydict list" where
  "empty_errors normalised =
     map (\<lambda>row. error_entry (dict_get row ''id'') ''no fields to update'')
       (filter (\<lambda>row. truthy (dict_get row ''__empty'')) normalised)"

text \<open>
  \<open>bulk_update\<close>. The session is returned with the outcome, so that what was handed
  to the session is known when the call raises as well.
\<close>

definition bulk_update ::
  "repository \<Rightarrow> session \<Rightarrow> pydict list \<Rightarrow> string list option \<Rightarrow> bool \<Rightarrow>
   (error + BulkUpdateResult) \<times> session" where
  "bulk_update repo s payload update_fields include_none =
     (if payload = [] then (Inr \<lparr>updated = [], errors = []\<rparr>, s)
      else
        (case normalise update_fields include_none payload of
           Inl e \<Rightarrow> (Inl e, s)
         | Inr normalised \<Rightarrow>
             (case process_groups repo (''workspace_id'' \<in> set (table_columns repo)) ([], [], s)
                     (group_rows normalised []) of
                (Inl e, s') \<Rightarrow> (Inl e, s')
              | (Inr (upd, errs), s') \<Rightarrow>
                  (Inr \<lparr>updated = upd, errors = errs @ empty_errors normalised\<rparr>, s'))))"

section \<open>Invariant of the groups\<close>

text \<open>
  The invariant of the groups: one group per column set, no empty group, and every
  row of a group writes exactly the columns of its key.
\<close>

definition grouped :: "(string set \<times> pydict list) list \<Rightarrow> bool" where
  "grouped g = (distinct (map fst g) \<and>
     list_all (\<lambda>(cs, rows). cs \<noteq> {} \<and> rows \<noteq> [] \<and> list_all (\<lambda>r. row_columns r = cs) rows) g)"

section \<open>Example inputs\<close>

text \<open>
  The concrete inputs of the closed statements below. \<open>literal_builtins\<close> accepts no
  float or Decimal literal; none of the examples reaches a column of those types.
\<close>

definition literal_builtins :: "(unit, unit) builtins" where
  "literal_builtins = \<lparr>py_float = (\<lambda>s. None), py_Decimal = (\<lambda>s. None)\<rparr>"

definition id_column :: column where
  "id_column = \<lparr>col_name = ''id'', col_python_type = Some IntT\<rparr>"

definition name_column :: column where
  "name_column = \<lparr>col_name = ''name'', col_python_type = Some (OtherT ''str'')\<rparr>"

definition age_column :: column where
  "age_column = \<lparr>col_name = ''age'', col_python_type = Some IntT\<rparr>"

definition owner_column :: column where
  "owner_column = \<lparr>col_name = ''owner_name'', col_python_type = Some (OtherT ''str'')\<rparr>"

definition user_model :: orm_model where
  "user_model = \<lparr>model_name = ''User'',
                  model_attrs = [(''id'', id_column), (''name'', name_column), (''age'', age_column)],
                  model_relationships = []\<rparr>"

definition user_config :: SearchConfig where
  "user_config =
     SearchConfig_init [''id'', ''name'', ''age'']
       (Some [(''owner'', \<lparr>jc_join = Some ''Owner'', jc_column = Some owner_column\<rparr>)])
       None (Some [''name''])"

definition empty_request :: BaseSearchRequestBody where
  "empty_request = \<lparr>rq_search = None, rq_page = None, rq_page_size = None,
                     rq_filter = None, rq_sort = None\<rparr>"

definition fixed_backend :: "int \<Rightarrow> (unit, unit, string) backend" where
  "fixed_backend n = \<lparr>run_count = (\<lambda>q. Some n), run_page = (\<lambda>q. Inr [])\<rparr>"

definition unknown_field_request :: BaseSearchRequestBody where
  "unknown_field_request =
     empty_request\<lparr>rq_filter := Some [\<lparr>f_column = ''bogus'', f_value = ''x'', f_operator = EQUALS\<rparr>]\<rparr>"

definition bad_int_request :: BaseSearchRequestBody where
  "bad_int_request =
     empty_request\<lparr>rq_filter := Some [\<lparr>f_column = ''age'', f_value = ''abc'', f_operator = EQUALS\<rparr>]\<rparr>"

definition owner_sort_request :: BaseSearchRequestBody where
  "owner_sort_request =
     empty_request\<lparr>rq_sort := Some [\<lparr>s_column = ''owner'', s_direction = ASC\<rparr>]\<rparr>"

definition bogus_sort_request :: BaseSearchRequestBody where
  "bogus_sort_request =
     empty_request\<lparr>rq_sort := Some [\<lparr>s_column = ''name'', s_direction = ASC\<rparr>,
                                    \<lparr>s_column = ''bogus'', s_direction = DESC\<rparr>]\<rparr>"

text \<open>
  A table with a tenant column, for the repository of tenant 1, on any database
  \<open>db\<close>. Rows 1 and 5 belong to tenant 1 and row 2 to tenant 2; there is no row 3.
\<close>

definition example_repo ::
  "(dbtable \<Rightarrow> statement \<Rightarrow> error + pydict list \<times> dbtable) \<Rightarrow> repository" where
  "example_repo db =
     \<lparr>workspace_id = 1, table_columns = [''id'', ''workspace_id'', ''name'', ''email''], store = db\<rparr>"

definition example_table :: dbtable where
  "example_table =
     [PyInt 1 \<mapsto> [''workspace_id'' \<mapsto> PyInt 1, ''name'' \<mapsto> PyStr ''old''],
      PyInt 2 \<mapsto> [''workspace_id'' \<mapsto> PyInt 2, ''name'' \<mapsto> PyStr ''theirs''],
      PyInt 5 \<mapsto> [''workspace_id'' \<mapsto> PyInt 1, ''name'' \<mapsto> PyStr ''five'']]"

definition example_session :: session where
  "example_session = \<lparr>committed = example_table, pending = example_table, log = []\<rparr>"

text \<open>The session after one statement was handed to it and raised.\<close>

definition after_statement :: "statement \<Rightarrow> session" where
  "after_statement st = example_session\<lparr>log := [Execute st]\<rparr>"

text \<open>A payload of one row, of another tenant, and one of a row that does not exist.\<close>

definition foreign_payload :: "pydict list" where
  "foreign_payload = [[(''id'', PyInt 2), (''name'', PyStr ''x'')]]"

definition missing_payload :: "pydict list" where
  "missing_payload = [[(''id'', PyInt 3), (''name'', PyStr ''x'')]]"


text \<open>A payload of two rows that write different columns.\<close>

definition shapes_payload :: "pydict list" where
  "shapes_payload =
     [[(''id'', PyInt 1), (''name'', PyStr ''new''), (''email'', PyNone)],
      [(''id'', PyInt 5), (''name'', PyNone), (''email'', PyStr ''e@x'')]]"

definition shapes_rows :: "pydict list" where
  "shapes_rows =
     [[(''id'', PyInt 1), (''name'', PyStr ''new'')],
      [(''id'', PyInt 5), (''email'', PyStr ''e@x'')]]"

section \<open>Properties of the bulk update\<close>

text \<open>
  C10. For the empty payload \<open>bulk_update\<close> returns a result whose \<open>updated\<close> and
  \<open>errors\<close> are both empty and leaves the session as it was: nothing is executed,
  committed or rolled back, so the trace is unchanged.
\<close>

theorem bulk_update_empty_payload:
  "bulk_update repo s [] update_fields include_none = (Inr \<lparr>updated = [], errors = []\<rparr>, s)"
  by (simp add: bulk_update_def)

section \<open>Properties of the search\<close>

subsection \<open>Pagination\<close>

lemma floor_division_is_ceiling:
  fixes t ps :: int
  assumes "1 \<le> ps"
  shows "(t + ps - 1) div ps = \<lceil>real_of_int t / real_of_int ps\<rceil>"
proof -
  define q where "q = (t + ps - 1) div ps"
  define r where "r = (t + ps - 1) mod ps"
  have e: "q * ps + r = t + ps - 1"
    unfolding q_def r_def by (rule div_mult_mod_eq)
  have r0: "0 \<le> r" unfolding r_def using assms by (intro pos_mod_sign) linarith
  have r1: "r < ps" unfolding r_def using assms by (intro pos_mod_bound) linarith
  have up: "t \<le> q * ps" using e r1 by linarith
  have lo: "q * ps - ps < t" using e r0 by linarith
  have ps: "0 < real_of_int ps" using assms by simp
  have up': "real_of_int t \<le> real_of_int q * real_of_int ps"
    using up by (metis of_int_le_iff of_int_mult)
  have lo': "real_of_int q * real_of_int ps - real_of_int ps < real_of_int t"
    using lo by (metis of_int_less_iff of_int_mult of_int_diff)
  have a: "real_of_int t / real_of_int ps \<le> real_of_int q"
    using up' ps by (simp add: pos_divide_le_eq)
  have "(real_of_int q - 1) * real_of_int ps < real_of_int t"
    using lo' by (simp add: algebra_simps)
  then have b: "real_of_int q - 1 < real_of_int t / real_of_int ps"
    using ps by (simp add: pos_less_divide_eq)
  have "\<lceil>real_of_int t / real_of_int ps\<rceil> = q"
    by (rule ceiling_unique) (use a b in simp_all)
  then show ?thesis unfolding q_def by simp
qed

lemma create_total_pages:
  assumes "1 \<le> ps" and "create its tot pg ps = Inr r"
  shows "total r = tot \<and> page_size r = ps \<and>
    total_pages r = (if tot > 0 then \<lceil>real_of_int tot / real_of_int ps\<rceil> else 0)"
proof (cases "tot > 0")
  case True
  with assms have "r = \<lparr>items = its, total = tot, page = pg, page_size = ps,
                   total_pages = (tot + ps - 1) div ps\<rparr>"
    by (simp add: create_def)
  with True assms(1) show ?thesis by (simp add: floor_division_is_ceiling)
next
  case False
  with assms have "r = \<lparr>items = its, total = tot, page = pg, page_size = ps, total_pages = 0\<rparr>"
    by (simp add: create_def)
  with False show ?thesis by simp
qed

lemma or_default_page_size: "valid_request rq \<Longrightarrow> 1 \<le> or_default (rq_page_size rq) 20"
  by (cases "rq_page_size rq") (simp_all add: valid_request_def or_default_def)

lemma search_Inr_create:
  assumes "search b m cfg db rq ws = Inr r"
  shows "\<exists>its tot pg. create its tot pg (or_default (rq_page_size rq) 20) = Inr r"
proof (cases "build_query b m cfg rq ws")
  case (Inl e)
  with assms show ?thesis by (simp add: search_def)
next
  case (Inr q)
  show ?thesis
  proof (cases "run_page db (q\<lparr>q_offset := Some ((or_default (rq_page rq) 1 - 1) * or_default (rq_page_size rq) 20),
                 q_limit := Some (or_default (rq_page_size rq) 20)\<rparr>)")
    case (Inl e)
    with Inr assms show ?thesis by (simp add: search_def Let_def)
  next
    case (Inr its)
    with \<open>build_query b m cfg rq ws = Inr q\<close> assms show ?thesis
      by (auto simp add: search_def Let_def)
  qed
qed

text \<open>
  C9. Every page that \<open>search\<close> returns for a request that satisfies the field
  constraints of the schema has \<open>total_pages\<close> equal to the ceiling of
  \<open>total / page_size\<close> when \<open>total\<close> is positive, and \<open>0\<close> otherwise.
\<close>

theorem search_total_pages:
  assumes "valid_request rq" and "search b m cfg db rq ws = Inr r"
  shows "total_pages r =
    (if total r > 0 then \<lceil>real_of_int (total r) / real_of_int (page_size r)\<rceil> else 0)"
proof -
  from search_Inr_create[OF assms(2)] obtain its tot pg
    where c: "create its tot pg (or_default (rq_page_size rq) 20) = Inr r" by blast
  from create_total_pages[OF or_default_page_size[OF assms(1)] c]
  show ?thesis by simp
qed

lemma empty_request_page:
  "search literal_builtins user_model user_config (fixed_backend 45) empty_request None =
     Inr \<lparr>items = [], total = 45, page = 1, page_size = 20, total_pages = 3\<rparr>"
  by (simp add: search_def build_query_def filtered_query_def Let_def select_def
      user_model_def user_config_def SearchConfig_init_def empty_request_def fixed_backend_def
      hasattr_def getattr_def or_default_def create_def id_column_def)

theorem search_total_pages_witness:
  "valid_request empty_request \<and>
   search literal_builtins user_model user_config (fixed_backend 45) empty_request None =
     Inr \<lparr>items = [], total = 45, page = 1, page_size = 20, total_pages = 3\<rparr> \<and>
   (3::int) = \<lceil>real_of_int 45 / real_of_int 20\<rceil>"
proof -
  have v: "valid_request empty_request" by (simp add: valid_request_def empty_request_def)
  from search_total_pages[OF v empty_request_page] v empty_request_page
  show ?thesis by simp
qed

subsection \<open>Filter and sort errors\<close>

lemmas example_defs =
  user_model_def user_config_def SearchConfig_init_def empty_request_def fixed_backend_def
  id_column_def name_column_def age_column_def owner_column_def literal_builtins_def

lemmas search_defs =
  search_def build_query_def filtered_query_def Let_def select_def hasattr_def getattr_def
  or_default_def create_def apply_filters_def build_filter_condition_def in_join_columns_def
  convert_filter_value_def

lemma filter_conditions_error:
  "filter_conditions b m cfg fs = Inl e \<Longrightarrow>
     \<exists>c v. e = FilterValueError c v ''valid filter value''"
  by (induction fs) (auto split: sum.splits)

lemma py_int_abc: "py_int ''abc'' = None"
  by (simp add: py_int_def int_strip_def is_int_space_def is_digit_def)

text \<open>
  C3. Claimed: a filter on a column absent from both \<open>simple_columns\<close> and
  \<open>join_columns\<close> fails the search with the invalid-filter-field error. On the code,
  \<open>_build_filter_condition\<close> raises \<open>InvalidFilterFieldError\<close> for the filter
  \<open>bogus equals x\<close>, and the handler in \<open>_apply_filters\<close> replaces it, so the search
  fails with \<open>FilterValueError\<close>, the type-mismatch kind.
\<close>

theorem unknown_filter_field_raises_value_error:
  "build_filter_condition literal_builtins user_model user_config
     \<lparr>f_column = ''bogus'', f_value = ''x'', f_operator = EQUALS\<rparr> =
     Inl (InvalidFilterFieldError ''bogus'' ''User'') \<and>
   search literal_builtins user_model user_config (fixed_backend 45) unknown_field_request None =
     Inl (FilterValueError ''bogus'' ''x'' ''valid filter value'')"
  by (simp add: search_defs example_defs unknown_field_request_def)

text \<open>
  C4. Claimed: a value that cannot be converted fails with a conversion error naming
  the field, the raw value and the expected type name. On the code,
  \<open>_convert_filter_value\<close> raises that error for \<open>abc\<close> on the integer column \<open>age\<close>
  with the type name \<open>int\<close>, and the handler in \<open>_apply_filters\<close> replaces it by one
  whose expected type is the fixed text \<open>valid filter value\<close>.
\<close>

theorem conversion_error_loses_type_name:
  "convert_filter_value literal_builtins age_column ''abc'' ''age'' =
     Inl (FilterValueError ''age'' ''abc'' ''int'') \<and>
   search literal_builtins user_model user_config (fixed_backend 45) bad_int_request None =
     Inl (FilterValueError ''age'' ''abc'' ''valid filter value'')"
  by (simp add: search_defs example_defs bad_int_request_def py_int_abc)

text \<open>
  C8, as claimed, fails: \<open>owner\<close> is a key of \<open>join_columns\<close> and not a member of
  \<open>sortable_columns\<close>, and a search sorted by it returns a page.
\<close>

theorem join_column_sorts_outside_sortable:
  "''owner'' \<notin> set (sortable_columns user_config) \<and>
   search literal_builtins user_model user_config (fixed_backend 45) owner_sort_request None =
     Inr \<lparr>items = [], total = 45, page = 1, page_size = 20, total_pages = 3\<rparr>"
  by (simp add: search_defs example_defs owner_sort_request_def)

lemma apply_sorting_prefix:
  assumes "apply_sorting m cfg q pre joined = Inr q'"
    and "s_column si \<notin> set (sortable_columns cfg)"
    and "\<not> in_join_columns cfg (s_column si)"
  shows "apply_sorting m cfg q (pre @ si # post) joined =
           Inl (InvalidSortFieldError (s_column si) (model_name m))"
  using assms
proof (induction pre arbitrary: q joined)
  case Nil
  then show ?case by simp
next
  case (Cons p pre)
  then show ?case
    by (auto simp: Let_def split: if_splits sum.splits option.splits prod.splits)
qed


text \<open>
  C8, amended. A sort clause whose column is neither in \<open>sortable_columns\<close> nor a key
  of \<open>join_columns\<close> fails the search with the invalid-sort-field error for that
  column, once the filters and the sort clauses before it have been applied.
\<close>

theorem ineligible_sort_field_fails:
  assumes "filtered_query b m cfg rq ws = Inr (q, joined)"
    and "rq_sort rq = Some (pre @ si # post)"
    and "apply_sorting m cfg q pre joined = Inr q'"
    and "s_column si \<notin> set (sortable_columns cfg)"
    and "\<not> in_join_columns cfg (s_column si)"
  shows "search b m cfg db rq ws = Inl (InvalidSortFieldError (s_column si) (model_name m))"
proof -
  have "apply_sorting m cfg q (pre @ si # post) joined =
          Inl (InvalidSortFieldError (s_column si) (model_name m))"
    by (rule apply_sorting_prefix[OF assms(3,4,5)])
  moreover obtain x xs where "pre @ si # post = x # xs" by (cases pre) auto
  ultimately have "build_query b m cfg rq ws =
          Inl (InvalidSortFieldError (s_column si) (model_name m))"
    using assms(1,2) by (simp add: build_query_def)
  then show ?thesis by (simp add: search_def)
qed

theorem ineligible_sort_field_fails_witness:
  "filtered_query literal_builtins user_model user_config bogus_sort_request None = Inr (select, {}) \<and>
   rq_sort bogus_sort_request =
     Some ([\<lparr>s_column = ''name'', s_direction = ASC\<rparr>] @ \<lparr>s_column = ''bogus'', s_direction = DESC\<rparr> # []) \<and>
   apply_sorting user_model user_config select [\<lparr>s_column = ''name'', s_direction = ASC\<rparr>] {} =
     Inr (select\<lparr>q_order_by := [(name_column, ASC)]\<rparr>) \<and>
   ''bogus'' \<notin> set (sortable_columns user_config) \<and>
   \<not> in_join_columns user_config ''bogus'' \<and>
   search literal_builtins user_model user_config (fixed_backend 45) bogus_sort_request None =
     Inl (InvalidSortFieldError ''bogus'' ''User'')"
proof -
  have f: "filtered_query literal_builtins user_model user_config bogus_sort_request None =
             Inr (select, {})"
    by (simp add: search_defs example_defs bogus_sort_request_def)
  have r: "rq_sort bogus_sort_request =
     Some ([\<lparr>s_column = ''name'', s_direction = ASC\<rparr>] @ \<lparr>s_column = ''bogus'', s_direction = DESC\<rparr> # [])"
    by (simp add: bogus_sort_request_def empty_request_def)
  have a: "apply_sorting user_model user_config select [\<lparr>s_column = ''name'', s_direction = ASC\<rparr>] {} =
     Inr (select\<lparr>q_order_by := [(name_column, ASC)]\<rparr>)"
    by (simp add: search_defs example_defs)
  have n: "s_column \<lparr>s_column = ''bogus'', s_direction = DESC\<rparr> \<notin> set (sortable_columns user_config)"
    by (simp add: example_defs)
  have j: "\<not> in_join_columns user_config (s_column \<lparr>s_column = ''bogus'', s_direction = DESC\<rparr>)"
    by (simp add: example_defs in_join_columns_def)
  from ineligible_sort_field_fails[OF f r a n j, of "fixed_backend 45"] f r a n j
  show ?thesis by (simp add: user_model_def)
qed

section \<open>Properties of the chunks\<close>

lemma max_rows_pos: "1 \<le> max_rows n"
  by (simp add: max_rows_def)

lemma max_rows_bound:
  assumes "n \<le> MAX_QUERY_PARAMS"
  shows "n * max_rows n \<le> MAX_QUERY_PARAMS"
proof (cases "MAX_QUERY_PARAMS div n = 0")
  case True
  then show ?thesis using assms by (simp add: max_rows_def)
next
  case False
  then have "max_rows n = MAX_QUERY_PARAMS div n" by (simp add: max_rows_def)
  then show ?thesis by simp
qed

lemma max_rows_over: "MAX_QUERY_PARAMS < n \<Longrightarrow> max_rows n = 1"
  by (simp add: max_rows_def)

declare chunks.simps [simp del]

lemma chunks_Nil [simp]: "chunks [] n = []"
  by (subst chunks.simps) simp

lemma concat_chunks: "0 < n \<Longrightarrow> concat (chunks xs n) = xs"
proof (induction xs n rule: chunks.induct)
  case (1 xs n)
  show ?case
  proof (cases "xs = []")
    case True
    then show ?thesis by simp
  next
    case False
    with 1 have "concat (chunks (drop n xs) n) = drop n xs" by simp
    with False 1(2) show ?thesis by (subst chunks.simps) simp
  qed
qed

lemma chunks_sizes:
  "c \<in> set (chunks xs n) \<Longrightarrow> c \<noteq> [] \<and> length c \<le> n \<and> set c \<subseteq> set xs"
proof (induction xs n arbitrary: c rule: chunks.induct)
  case (1 xs n)
  show ?case
  proof (cases "xs = [] \<or> n = 0")
    case True
    with 1(2) show ?thesis by (subst (asm) chunks.simps) simp
  next
    case False
    with 1(2) have "c = take n xs \<or> c \<in> set (chunks (drop n xs) n)"
      by (subst (asm) chunks.simps) auto
    then show ?thesis
    proof
      assume "c = take n xs"
      with False show ?thesis by (auto dest: in_set_takeD)
    next
      assume "c \<in> set (chunks (drop n xs) n)"
      from 1(1)[OF False this] show ?thesis by (auto dest: in_set_dropD)
    qed
  qed
qed

text \<open>
  C5, as claimed, fails for a group of 20000 columns: a row alone takes 20001
  parameters, the chunk size is 1, and the product exceeds the ceiling.
\<close>

theorem single_row_over_ceiling:
  "max_rows (1 + 20000) = 1 \<and> \<not> (1 + 20000) * max_rows (1 + 20000) \<le> (20000::nat)"
  by (simp add: max_rows_def MAX_QUERY_PARAMS_def)

text \<open>
  C5, amended. The rows of a group of \<open>n\<close> columns are split, in order and without
  loss, into chunks of at least one row and at most \<open>max_rows (1 + n)\<close> rows. When a
  single row fits under the ceiling (\<open>1 + n \<le> 20000\<close>) every chunk satisfies
  \<open>(1 + n) * size \<le> 20000\<close>; when it does not, every chunk has exactly one row.
\<close>

theorem chunk_sizes_within_ceiling:
  "\<exists>batches. batched rows (max_rows (1 + n)) = Inr batches \<and> concat batches = rows \<and>
     (\<forall>batch \<in> set batches.
        1 \<le> length batch \<and> length batch \<le> max_rows (1 + n) \<and>
        (1 + n \<le> 20000 \<longrightarrow> (1 + n) * length batch \<le> 20000) \<and>
        (20000 < 1 + n \<longrightarrow> length batch = 1))"
proof -
  let ?m = "max_rows (1 + n)"
  have pos: "0 < ?m" using max_rows_pos[of "1 + n"] by simp
  have b: "batched rows ?m = Inr (chunks rows ?m)" using pos by (simp add: batched_def)
  have "1 \<le> length batch \<and> length batch \<le> ?m \<and>
        (1 + n \<le> 20000 \<longrightarrow> (1 + n) * length batch \<le> 20000) \<and>
        (20000 < 1 + n \<longrightarrow> length batch = 1)"
    if "batch \<in> set (chunks rows ?m)" for batch
  proof -
    from chunks_sizes[OF that] have ne: "batch \<noteq> []" and le: "length batch \<le> ?m" by simp_all
    from ne have l1: "1 \<le> length batch" by (cases batch) simp_all
    have w: "(1 + n) * length batch \<le> 20000" if "1 + n \<le> 20000"
    proof -
      have "(1 + n) * length batch \<le> (1 + n) * ?m" using le by (rule mult_le_mono2)
      also have "\<dots> \<le> MAX_QUERY_PARAMS"
        using that by (intro max_rows_bound) (simp add: MAX_QUERY_PARAMS_def)
      finally show ?thesis by (simp add: MAX_QUERY_PARAMS_def)
    qed
    have o: "length batch = 1" if "20000 < 1 + n"
      using max_rows_over[of "1 + n"] that le l1 by (simp add: MAX_QUERY_PARAMS_def)
    from l1 le w o show ?thesis by blast
  qed
  with b concat_chunks[OF pos, of rows] show ?thesis by blast
qed

theorem chunk_sizes_within_ceiling_witness:
  "batched [1, 2, 3 :: nat] (max_rows (1 + 9999)) = Inr [[1, 2], [3]] \<and>
   (1 + 9999) * length [1, 2 :: nat] \<le> (20000 :: nat)"
proof -
  have m: "max_rows (1 + 9999) = 2" by (simp add: max_rows_def MAX_QUERY_PARAMS_def)
  have c: "chunks [1, 2, 3 :: nat] 2 = [[1, 2], [3]]"
    by code_simp
  from chunk_sizes_within_ceiling[of "[1, 2, 3 :: nat]" 9999] m c
  show ?thesis by (simp add: batched_def)
qed

section \<open>Groups, statements and reports of the bulk update\<close>

subsection \<open>Groups\<close>

lemma map_default_cases:
  "(cs, rs') \<in> set (map_default k v f g) \<Longrightarrow>
     (cs, rs') \<in> set g \<or> (cs = k \<and> rs' = v) \<or> (cs = k \<and> (\<exists>rs. (k, rs) \<in> set g \<and> rs' = f rs))"
  by (induction g) (auto split: if_splits)

lemma map_default_keeps:
  "(cs, rs) \<in> set g \<Longrightarrow>
     \<exists>rs'. (cs, rs') \<in> set (map_default k [row] (\<lambda>rs. rs @ [row]) g) \<and> set rs \<subseteq> set rs'"
proof (induction g)
  case Nil
  then show ?case by simp
next
  case (Cons p g)
  show ?case
  proof (cases "fst p = k")
    case True
    show ?thesis
    proof (cases "p = (cs, rs)")
      case True
      with \<open>fst p = k\<close> show ?thesis by auto
    next
      case False
      with Cons.prems have "(cs, rs) \<in> set g" by simp
      with True show ?thesis by auto
    qed
  next
    case False
    show ?thesis
    proof (cases "p = (cs, rs)")
      case True
      with False show ?thesis by auto
    next
      case False
      with Cons.prems have "(cs, rs) \<in> set g" by simp
      from Cons.IH[OF this] \<open>fst p \<noteq> k\<close> show ?thesis by auto
    qed
  qed
qed

lemma map_default_adds:
  "\<exists>rs. (k, rs) \<in> set (map_default k [row] (\<lambda>rs. rs @ [row]) g) \<and> row \<in> set rs"
  by (induction g) auto

lemma grouped_map_default:
  assumes "grouped g" and "row_columns row \<noteq> {}"
  shows "grouped (map_default (row_columns row) [row] (\<lambda>rs. rs @ [row]) g)"
proof -
  let ?g = "map_default (row_columns row) [row] (\<lambda>rs. rs @ [row]) g"
  from assms(1) have d: "distinct (map fst g)" by (simp add: grouped_def)
  have 1: "distinct (map fst ?g)" using d by (rule distinct_map_default)
  have 2: "cs \<noteq> {} \<and> rows \<noteq> [] \<and> list_all (\<lambda>r. row_columns r = cs) rows"
    if "(cs, rows) \<in> set ?g" for cs rows
  proof -
    from map_default_cases[OF that]
    consider "(cs, rows) \<in> set g" | "cs = row_columns row" "rows = [row]"
      | rs where "cs = row_columns row" "(row_columns row, rs) \<in> set g" "rows = rs @ [row]"
      by blast
    then show ?thesis
    proof cases
      case 1
      with assms(1) show ?thesis by (auto simp: grouped_def list_all_iff)
    next
      case 2
      with assms(2) show ?thesis by simp
    next
      case 3
      from 3(2) assms(1) have "list_all (\<lambda>r. row_columns r = row_columns row) rs"
        by (auto simp: grouped_def list_all_iff)
      with 3 assms(2) show ?thesis by simp
    qed
  qed
  from 1 2 show ?thesis by (auto simp: grouped_def list_all_iff)
qed

lemma grouped_group_rows: "grouped g \<Longrightarrow> grouped (group_rows rows g)"
  by (induction rows arbitrary: g) (simp_all add: grouped_map_default)

lemma group_rows_keeps:
  assumes "(cs, rs) \<in> set g" and "r \<in> set rs"
  shows "\<exists>rs'. (cs, rs') \<in> set (group_rows rows g) \<and> r \<in> set rs'"
  using assms
proof (induction rows arbitrary: g rs)
  case Nil
  then show ?case by auto
next
  case (Cons row rows)
  show ?case
  proof (cases "row_columns row = {}")
    case True
    with Cons show ?thesis by simp
  next
    case False
    let ?g = "map_default (row_columns row) [row] (\<lambda>rs. rs @ [row]) g"
    from map_default_keeps[OF Cons.prems(1), of "row_columns row" row] Cons.prems(2)
    obtain rs' where "(cs, rs') \<in> set ?g" "r \<in> set rs'" by blast
    from Cons.IH[OF this] False show ?thesis by simp
  qed
qed

lemma group_rows_complete:
  assumes "r \<in> set rows" and "row_columns r \<noteq> {}"
  shows "\<exists>rs. (row_columns r, rs) \<in> set (group_rows rows g) \<and> r \<in> set rs"
  using assms
proof (induction rows arbitrary: g)
  case Nil
  then show ?case by simp
next
  case (Cons row rows)
  let ?g = "map_default (row_columns row) [row] (\<lambda>rs. rs @ [row]) g"
  show ?case
  proof (cases "r = row")
    case True
    from map_default_adds[of "row_columns row" row g]
    obtain rs where "(row_columns r, rs) \<in> set ?g" "r \<in> set rs" unfolding True by blast
    from group_rows_keeps[OF this] Cons.prems(2) True show ?thesis by simp
  next
    case False
    with Cons.prems(1) have r: "r \<in> set rows" by simp
    show ?thesis
    proof (cases "row_columns row = {}")
      case True
      with Cons.IH[OF r Cons.prems(2)] show ?thesis by simp
    next
      case False
      with Cons.IH[OF r Cons.prems(2)] show ?thesis by simp
    qed
  qed
qed

lemma group_rows_from:
  assumes "(cs, rs) \<in> set (group_rows rows g)" and "r \<in> set rs"
  shows "r \<in> set rows \<or> (\<exists>rs0. (cs, rs0) \<in> set g \<and> r \<in> set rs0)"
  using assms
proof (induction rows arbitrary: g)
  case Nil
  then show ?case by auto
next
  case (Cons row rows)
  show ?case
  proof (cases "row_columns row = {}")
    case True
    with Cons.prems have "(cs, rs) \<in> set (group_rows rows g)" by simp
    from Cons.IH[OF this Cons.prems(2)] show ?thesis by auto
  next
    case False
    let ?g = "map_default (row_columns row) [row] (\<lambda>rs. rs @ [row]) g"
    from False Cons.prems have "(cs, rs) \<in> set (group_rows rows ?g)" by simp
    from Cons.IH[OF this Cons.prems(2)]
    consider "r \<in> set rows" | rs0 where "(cs, rs0) \<in> set ?g" "r \<in> set rs0" by blast
    then show ?thesis
    proof cases
      case 1
      then show ?thesis by simp
    next
      case 2
      from map_default_cases[OF 2(1)] 2(2) show ?thesis by auto
    qed
  qed
qed

subsection \<open>Loop rules\<close>

lemma process_batches_rule:
  assumes "process_batches repo wsf cols (U, E, s) batches = (out, s')"
    and "I D (U, E, s)"
    and step: "\<And>D U E s batch out s'. batch \<in> set batches \<Longrightarrow> I D (U, E, s) \<Longrightarrow>
        process_batch repo wsf cols (U, E, s) batch = (out, s') \<Longrightarrow>
        (case out of Inl e \<Rightarrow> F s' | Inr (U', E') \<Rightarrow> I (D \<union> set batch) (U', E', s'))"
  shows "case out of Inl e \<Rightarrow> F s' | Inr (U', E') \<Rightarrow> I (D \<union> \<Union> (set ` set batches)) (U', E', s')"
  using assms
proof (induction batches arbitrary: D U E s)
  case Nil
  then show ?case by auto
next
  case (Cons batch batches)
  obtain o1 s1 where p: "process_batch repo wsf cols (U, E, s) batch = (o1, s1)"
    by (cases "process_batch repo wsf cols (U, E, s) batch")
  have st: "case o1 of Inl e \<Rightarrow> F s1 | Inr (U', E') \<Rightarrow> I (D \<union> set batch) (U', E', s1)"
    by (rule Cons.prems(3)[OF _ Cons.prems(2) p]) simp
  show ?case
  proof (cases o1)
    case (Inl e)
    with p Cons.prems(1) have "out = Inl e" "s' = s1" by simp_all
    with st Inl show ?thesis by simp
  next
    case (Inr acc)
    obtain U1 E1 where acc: "acc = (U1, E1)" by (cases acc)
    from p Inr acc Cons.prems(1) have r: "process_batches repo wsf cols (U1, E1, s1) batches = (out, s')"
      by simp
    from st Inr acc have i: "I (D \<union> set batch) (U1, E1, s1)" by simp
    have eq: "D \<union> \<Union> (set ` set (batch # batches)) =
              (D \<union> set batch) \<union> \<Union> (set ` set batches)" by auto
    have "case out of Inl e \<Rightarrow> F s'
          | Inr (U', E') \<Rightarrow> I ((D \<union> set batch) \<union> \<Union> (set ` set batches)) (U', E', s')"
      by (rule Cons.IH[OF r i]) (rule Cons.prems(3), simp_all)
    then show ?thesis unfolding eq .
  qed
qed

lemma union_chunks: "0 < n \<Longrightarrow> \<Union> (set ` set (chunks xs n)) = set xs"
proof -
  assume "0 < n"
  then have "set (concat (chunks xs n)) = set xs" by (simp add: concat_chunks)
  then show ?thesis by simp
qed

lemma process_groups_rule:
  assumes "process_groups repo wsf (U, E, s) groups = (out, s')"
    and "I D (U, E, s)"
    and step: "\<And>cs rows D U E s batch out s'. (cs, rows) \<in> set groups \<Longrightarrow>
        batch \<in> set (chunks rows (max_rows (1 + length (sorted_list_of_set cs)))) \<Longrightarrow>
        I D (U, E, s) \<Longrightarrow>
        process_batch repo wsf (sorted_list_of_set cs) (U, E, s) batch = (out, s') \<Longrightarrow>
        (case out of Inl e \<Rightarrow> F s' | Inr (U', E') \<Rightarrow> I (D \<union> set batch) (U', E', s'))"
  shows "case out of Inl e \<Rightarrow> F s'
         | Inr (U', E') \<Rightarrow> I (D \<union> \<Union> (set ` snd ` set groups)) (U', E', s')"
  using assms
proof (induction groups arbitrary: D U E s)
  case Nil
  then show ?case by auto
next
  case (Cons g groups)
  obtain cs rows where g: "g = (cs, rows)" by (cases g)
  let ?cols = "sorted_list_of_set cs"
  let ?n = "max_rows (1 + length ?cols)"
  have pos: "0 < ?n" using max_rows_pos[of "1 + length ?cols"] by simp
  then have b: "batched rows ?n = Inr (chunks rows ?n)" by (simp add: batched_def)
  obtain o1 s1 where p: "process_batches repo wsf ?cols (U, E, s) (chunks rows ?n) = (o1, s1)"
    by (cases "process_batches repo wsf ?cols (U, E, s) (chunks rows ?n)")
  have st: "case o1 of Inl e \<Rightarrow> F s1
            | Inr (U', E') \<Rightarrow> I (D \<union> \<Union> (set ` set (chunks rows ?n))) (U', E', s1)"
    by (rule process_batches_rule[where I=I and F=F and D=D, OF p Cons.prems(2)])
       (rule Cons.prems(3), simp_all add: g)
  show ?case
  proof (cases o1)
    case (Inl e)
    with p b g Cons.prems(1) have "out = Inl e" "s' = s1" by (simp_all add: Let_def)
    with st Inl show ?thesis by simp
  next
    case (Inr acc)
    obtain U1 E1 where acc: "acc = (U1, E1)" by (cases acc)
    from p b g Inr acc Cons.prems(1) have r: "process_groups repo wsf (U1, E1, s1) groups = (out, s')"
      by (simp add: Let_def)
    have "I (D \<union> \<Union> (set ` set (chunks rows ?n))) (U1, E1, s1)"
      using st unfolding Inr acc by (simp only: sum.case prod.case)
    then have i: "I (D \<union> set rows) (U1, E1, s1)" unfolding union_chunks[OF pos] .
    have eq: "D \<union> \<Union> (set ` snd ` set (g # groups)) =
              (D \<union> set rows) \<union> \<Union> (set ` snd ` set groups)" by (auto simp: g)
    have "case out of Inl e \<Rightarrow> F s'
          | Inr (U', E') \<Rightarrow> I ((D \<union> set rows) \<union> \<Union> (set ` snd ` set groups)) (U', E', s')"
      by (rule Cons.IH[OF r i]) (rule Cons.prems(3), simp_all)
    then show ?thesis unfolding eq .
  qed
qed

lemma grouped_Nil: "grouped []"
  by (simp add: grouped_def)

lemma grouped_rows:
  assumes "grouped g" and "(cs, rows) \<in> set g"
  shows "cs \<noteq> {}" and "rows \<noteq> []" and "list_all (\<lambda>r. row_columns r = cs) rows"
  using assms by (auto simp: grouped_def list_all_iff)

subsection \<open>The batch statement\<close>

text \<open>
  No batch statement is accepted: \<open>_execute_batch_update\<close> raises on every chunk,
  either \<open>KeyError\<close> for a name that is not a column of the table or the
  \<open>ProgrammingError\<close> of the statement, and never \<open>IntegrityError\<close>. So the handler
  of line 166 is not entered, and a call with a row that writes a column raises.
\<close>

lemma values_rows_Inl: "values_rows tcols cols batch = Inl e \<Longrightarrow> \<exists>k. e = KeyError k"
  by (induction batch) (auto split: option.splits if_splits sum.splits)

lemma execute_batch_update_raises:
  "\<exists>e s'. execute_batch_update repo s batch cols wsf = (Inl e, s') \<and>
          ((\<exists>k. e = KeyError k) \<or> (\<exists>msg. e = ProgrammingError msg))"
proof (cases "values_rows (table_columns repo) cols batch")
  case (Inl e)
  from values_rows_Inl[OF this] Inl show ?thesis
    by (auto simp: execute_batch_update_def)
next
  case (Inr vals)
  then show ?thesis by (simp add: execute_batch_update_def execute_def)
qed

lemma process_batch_raises:
  assumes "batch \<noteq> []"
  shows "\<exists>e s'. process_batch repo wsf cols (upd, errs, s) batch = (Inl e, s')"
proof -
  from execute_batch_update_raises[of repo s batch cols wsf]
  obtain e s' where "execute_batch_update repo s batch cols wsf = (Inl e, s')"
    and "(\<exists>k. e = KeyError k) \<or> (\<exists>msg. e = ProgrammingError msg)" by blast
  with assms show ?thesis by (auto simp: process_batch_def)
qed

lemma process_groups_raises:
  assumes "rows \<noteq> []"
  shows "\<exists>e s'. process_groups repo wsf (upd, errs, s) ((cs, rows) # groups) = (Inl e, s')"
proof -
  let ?n = "max_rows (1 + length (sorted_list_of_set cs))"
  have pos: "?n \<noteq> 0" using max_rows_pos[of "1 + length (sorted_list_of_set cs)"] by simp
  from assms pos have c: "chunks rows ?n = take ?n rows # chunks (drop ?n rows) ?n"
    by (subst chunks.simps) simp
  from assms pos have "take ?n rows \<noteq> []" by simp
  from process_batch_raises[OF this, of repo wsf "sorted_list_of_set cs" upd errs s]
  obtain e s' where
    "process_batch repo wsf (sorted_list_of_set cs) (upd, errs, s) (take ?n rows) = (Inl e, s')"
    by blast
  with pos c show ?thesis by (simp add: batched_def Let_def)
qed

lemma bulk_update_raises:
  assumes "normalise update_fields include_none payload = Inr rows"
    and "r \<in> set rows" and "row_columns r \<noteq> {}"
  shows "\<exists>e s'. bulk_update repo s payload update_fields include_none = (Inl e, s')"
proof -
  let ?g = "group_rows rows []"
  from assms(1,2) have ne: "payload \<noteq> []" by (cases payload) auto
  from group_rows_complete[OF assms(2,3), of "[]"] have "?g \<noteq> []" by auto
  then obtain cs rs groups where g: "?g = (cs, rs) # groups" by (cases ?g) auto
  have "grouped ?g" by (rule grouped_group_rows[OF grouped_Nil])
  from grouped_rows(2)[OF this, of cs rs] g have "rs \<noteq> []" by simp
  from process_groups_raises[OF this, of repo "''workspace_id'' \<in> set (table_columns repo)"
      "[]" "[]" s cs groups]
  obtain e s' where
    "process_groups repo (''workspace_id'' \<in> set (table_columns repo)) ([], [], s)
       ((cs, rs) # groups) = (Inl e, s')" by blast
  with ne assms(1) g show ?thesis by (simp add: bulk_update_def)
qed

subsection \<open>The row statement\<close>

text \<open>
  On a table with the tenant column the fallback raises at its first row.
\<close>

lemma fallback_raises:
  assumes "row_statement repo row cols True = Inr st"
  shows "\<exists>msg s'. fallback_row_by_row repo s (row # rows) cols True (upd, errs) =
           (Inl (CompileError msg), s')"
proof -
  from assms obtain i asg where "st = RowUpdate i asg (Some (workspace_id repo))"
    by (auto simp: row_statement_def workspace_bind_def split: if_splits option.splits)
  with assms show ?thesis by (simp add: execute_def)
qed

subsection \<open>Runs\<close>

lemma chunks_short: "xs \<noteq> [] \<Longrightarrow> length xs \<le> n \<Longrightarrow> chunks xs n = [xs]"
  by (subst chunks.simps) (cases xs, auto)

lemma example_max_rows: "max_rows (Suc (Suc 0)) = 10000"
  by (simp add: max_rows_def MAX_QUERY_PARAMS_def numeral_2_eq_2[symmetric])

lemmas normalise_defs =
  normalise_item_def candidate_fields_def dict_of_def dict_update_def kept_def dict_get_def

lemmas run_defs =
  process_batch_def execute_batch_update_def execute_def batched_def workspace_bind_def
  dict_get_def example_repo_def example_session_def after_statement_def

lemma shapes_normalise: "normalise None False shapes_payload = Inr shapes_rows"
  by (simp add: shapes_payload_def shapes_rows_def normalise_defs)

lemma shapes_groups:
  "group_rows shapes_rows [] =
     [({''name''}, [[(''id'', PyInt 1), (''name'', PyStr ''new'')]]),
      ({''email''}, [[(''id'', PyInt 5), (''email'', PyStr ''e@x'')]])]"
  by (simp add: shapes_rows_def row_columns_def)

text \<open>
  C6. Claimed: two rows with different field sets are placed in different groups and
  generate separate statements. On the code, the rows of \<open>shapes_payload\<close> are placed
  in the groups of \<open>name\<close> and of \<open>email\<close>, the statement of the first group is
  rejected, and the call raises with that one statement in the trace: no statement
  is generated for the second group.
\<close>

theorem second_group_statement_not_generated:
  "normalise None False shapes_payload = Inr shapes_rows \<and>
   map fst (group_rows shapes_rows []) = [{''name''}, {''email''}] \<and>
   bulk_update (example_repo db) example_session shapes_payload None False =
     (Inl (ProgrammingError ''syntax error at or near :''),
      after_statement (BatchUpdate [''name''] [(PyInt 1, [PyStr ''new''])] (Some 1)))"
proof -
  have ne: "shapes_payload \<noteq> []" by (simp add: shapes_payload_def)
  have "bulk_update (example_repo db) example_session shapes_payload None False =
     (Inl (ProgrammingError ''syntax error at or near :''),
      after_statement (BatchUpdate [''name''] [(PyInt 1, [PyStr ''new''])] (Some 1)))"
    using ne
    by (simp add: bulk_update_def shapes_normalise shapes_groups example_max_rows chunks_short
        run_defs)
  then show ?thesis by (simp add: shapes_normalise shapes_groups)
qed

text \<open>
  C7. Claimed: a row with no field to write is reported in \<open>errors\<close> as
  \<open>no fields to update\<close>. On the code, with \<open>update_fields = ["id"]\<close> the candidate
  fields of a row are its id, so the row is not marked empty (line 131); it writes
  no column, so it is in no group (line 142); and the call returns with the row in
  neither list, on any repository and session.
\<close>

theorem update_fields_id_row_unreported:
  "bulk_update repo s [[(''id'', PyInt 1), (''name'', PyStr ''a'')]] (Some [''id'']) False =
     (Inr \<lparr>updated = [], errors = []\<rparr>, s)"
  by (simp add: bulk_update_def normalise_defs row_columns_def empty_errors_def)

text \<open>
  The other branch of step 1 leaves the id out of the candidate fields (line 122),
  and there a row with nothing to write is reported.
\<close>

lemma implicit_fields_empty_row_reported:
  "bulk_update repo s [[(''id'', PyInt 1), (''name'', PyNone)]] None False =
     (Inr \<lparr>updated = [], errors = [error_entry (PyInt 1) ''no fields to update'']\<rparr>, s)"
  by (simp add: bulk_update_def normalise_defs row_columns_def empty_errors_def)

text \<open>
  C1. Claimed: on a table with a tenant column a row of another tenant is left out of
  \<open>updated\<close> and reported in \<open>errors\<close> as \<open>row not found or workspace mismatch\<close>, as a
  row that does not exist is. On the code, the call for row 2, of tenant 2, returns
  no result: the statement that carries the row is rejected and \<open>ProgrammingError\<close>
  leaves \<open>bulk_update\<close>. The call for row 3, which does not exist, raises the same.
\<close>

theorem foreign_row_call_raises:
  "bulk_update (example_repo db) example_session foreign_payload None False =
     (Inl (ProgrammingError ''syntax error at or near :''),
      after_statement (BatchUpdate [''name''] [(PyInt 2, [PyStr ''x''])] (Some 1))) \<and>
   bulk_update (example_repo db) example_session missing_payload None False =
     (Inl (ProgrammingError ''syntax error at or near :''),
      after_statement (BatchUpdate [''name''] [(PyInt 3, [PyStr ''x''])] (Some 1)))"
  by (simp add: bulk_update_def foreign_payload_def missing_payload_def normalise_defs
      row_columns_def example_max_rows chunks_short run_defs)


end
